theory Spec2Isabelle
  imports Complex_Main "HOL-Library.Sublist"
begin

section \<open>Python values used by the collector\<close>

text \<open>
  A Python \<open>str\<close> is modelled as a \<open>string\<close> whose characters are the code points
  below 256. An instance of Python's \<open>Exception\<close> is a value carrying its message; a
  call that raises returns it on the left of a sum.
\<close>

datatype py_exception = Exception string

text \<open>
  \<open>datetime\<close>: only the calendar fields are read by the collector
  (\<open>d.year\<close> and \<open>d.isocalendar()\<close>). A \<open>datetime\<close> object has a month from 1 to 12
  and a day of that month.
\<close>

record datetime =
  year :: int
  month :: int
  day :: int

subsection \<open>\<open>str.lower\<close>, \<open>in\<close> on strings\<close>

text \<open>\<open>str.lower\<close> on the code points below 256: the letters A to Z and the
  capital letters from 192 to 222 (215 is the multiplication sign) move up by 32.\<close>

definition lower_char :: "char \<Rightarrow> char" where
  "lower_char c =
     (let n = of_char c :: nat in
      if (65 \<le> n \<and> n \<le> 90) \<or> (192 \<le> n \<and> n \<le> 222 \<and> n \<noteq> 215)
      then char_of (n + 32) else c)"

definition lower :: "string \<Rightarrow> string" where
  "lower s = map lower_char s"

text \<open>\<open>kw in text\<close> on two strings: \<open>kw\<close> occurs as a contiguous run of \<open>text\<close>.\<close>

definition str_contains :: "string \<Rightarrow> string \<Rightarrow> bool" where
  "str_contains kw text = sublist kw text"

subsection \<open>\<open>date.isocalendar\<close>\<close>

text \<open>
  The proleptic Gregorian ordinal and ISO week of Python's \<open>datetime\<close> module
  (\<open>_is_leap\<close>, \<open>_days_before_year\<close>, \<open>_days_before_month\<close>, \<open>_ymd2ord\<close>,
  \<open>_isoweek1monday\<close>, \<open>isocalendar\<close>). Python's \<open>//\<close> and \<open>%\<close> are \<open>div\<close> and
  \<open>mod\<close> on \<open>int\<close>.
\<close>

definition is_leap :: "int \<Rightarrow> bool" where
  "is_leap y = (y mod 4 = 0 \<and> (y mod 100 \<noteq> 0 \<or> y mod 400 = 0))"

definition days_before_year :: "int \<Rightarrow> int" where
  "days_before_year y0 = (let y = y0 - 1 in y * 365 + y div 4 - y div 100 + y div 400)"

definition DAYS_BEFORE_MONTH :: "int list" where
  "DAYS_BEFORE_MONTH = [0, 0, 31, 59, 90, 120, 151, 181, 212, 243, 273, 304, 334]"

definition days_before_month :: "int \<Rightarrow> int \<Rightarrow> int" where
  "days_before_month y m =
     DAYS_BEFORE_MONTH ! nat m + (if m > 2 \<and> is_leap y then 1 else 0)"

definition ymd2ord :: "int \<Rightarrow> int \<Rightarrow> int \<Rightarrow> int" where
  "ymd2ord y m d = days_before_year y + days_before_month y m + d"

definition isoweek1monday :: "int \<Rightarrow> int" where
  "isoweek1monday y =
     (let firstday = ymd2ord y 1 1;
          firstweekday = (firstday + 6) mod 7;
          week1monday = firstday - firstweekday
      in if firstweekday > 3 then week1monday + 7 else week1monday)"

text \<open>\<open>isocalendar d\<close> is the triple (ISO year, ISO week, ISO weekday).\<close>

definition isocalendar :: "datetime \<Rightarrow> int \<times> int \<times> int" where
  "isocalendar d =
     (let y = year d;
          week1monday = isoweek1monday y;
          today = ymd2ord (year d) (month d) (day d);
          week = (today - week1monday) div 7;
          wday = (today - week1monday) mod 7
      in if week < 0 then
           (let y' = y - 1; w1 = isoweek1monday y'
            in (y', (today - w1) div 7 + 1, (today - w1) mod 7 + 1))
         else if week \<ge> 52 \<and> today \<ge> isoweek1monday (y + 1) then (y + 1, 1, wday + 1)
         else (y, week + 1, wday + 1))"

section \<open>The hosting service's objects\<close>

text \<open>A commit as the validator reads it: \<open>commit.commit.author.date\<close> and
  \<open>commit.commit.message\<close>.\<close>

record commit =
  author_date :: datetime
  message :: string

text \<open>
  A pull request as the collector reads it. \<open>user_login\<close> is \<open>pr.user.login\<close>, or
  \<open>None\<close> when \<open>pr.user\<close> is absent; \<open>is_merged\<close> is the outcome of the call
  \<open>pr.is_merged()\<close>, a request of its own.
\<close>

record pull_request =
  number :: int
  title :: string
  body :: "string option"
  user_login :: "string option"
  created_at :: datetime
  state :: string
  is_merged :: "py_exception + bool"

text \<open>
  The paginated list that \<open>repo.get_pulls(state='all', sort='created', direction='desc')\<close>
  returns: its \<open>totalCount\<close>, the pull requests that iterating it yields, and the
  exception, if any, that the iteration raises after them (a later page that fails).
\<close>

record pull_listing =
  totalCount :: int
  pulls :: "pull_request list"
  next_page_error :: "py_exception option"

text \<open>
  A repository object. \<open>get_commits\<close> is what iterating
  \<open>repo.get_commits(since=2024-01-01, until=2025-01-01)\<close> gives: the commits of the
  window, or the exception raised by the call or by the iteration. \<open>get_pulls\<close> is the
  listing of its pull requests, or the exception raised by the call or by reading
  \<open>totalCount\<close>.
\<close>

record repository =
  full_name :: string
  name :: string
  description :: "string option"
  fork :: bool
  repo_size :: int
  get_commits :: "py_exception + commit list"
  get_pulls :: "py_exception + pull_listing"

text \<open>What the collector does that can be observed from outside: the lines it prints
  and the commit-history requests it sends (the progress bars are left out).\<close>

datatype event =
    Print_excluding_forked string
  | Print_excluding_keywords string
  | Request_commits string
  | Print_collecting_prs string int
  | Print_failed_prs string py_exception
  | Print_classification_error py_exception
  | Print_error py_exception

section \<open>\<open>GitHubCommitCollector\<close>\<close>

record collector =
  min_commits_2024 :: int
  min_active_weeks :: int
  min_avg_words :: int
  exclusion_keywords :: "string list"
  exclude_forks :: bool
  repos :: "repository list option"
  valid_repos :: "repository list option"

text \<open>
  \<open>__init__\<close>. \<open>config\<close> is the outcome of reading and parsing the configuration file:
  the parsed object, or the exception raised by \<open>open\<close> or \<open>json.load\<close>.
\<close>

definition init ::
  "(py_exception + (string \<rightharpoonup> string)) \<Rightarrow> int \<Rightarrow> int \<Rightarrow> int \<Rightarrow> string list option \<Rightarrow> bool
     \<Rightarrow> py_exception + collector" where
  "init config mc maw mavg kws ef =
     (case config of
        Inl e \<Rightarrow> Inl e
      | Inr cfg \<Rightarrow>
          (case cfg ''github_token'' of
             None \<Rightarrow> Inl (Exception ''GitHub token not found in config file.'')
           | Some token \<Rightarrow>
               if token = [] then Inl (Exception ''GitHub token not found in config file.'')
               else Inr \<lparr> min_commits_2024 = mc, min_active_weeks = maw, min_avg_words = mavg,
                          exclusion_keywords =
                            (case kws of
                               None \<Rightarrow> [''student'', ''exercise'', ''tutorial'']
                             | Some ks \<Rightarrow>
                                 if ks = [] then [''student'', ''exercise'', ''tutorial''] else ks),
                          exclude_forks = ef, repos = None, valid_repos = None \<rparr>))"

subsection \<open>\<open>_repo_is_valid\<close>\<close>

text \<open>\<open>re.findall(r"\w+", msg)\<close>: the maximal runs of word characters. A word
  character is an alphanumeric one (\<open>str.isalnum\<close>) or the underscore; \<open>is_word_char\<close>
  lists those below 256.\<close>

definition is_word_char :: "char \<Rightarrow> bool" where
  "is_word_char c =
     (let n = of_char c :: nat in
        (48 \<le> n \<and> n \<le> 57) \<or> (65 \<le> n \<and> n \<le> 90) \<or> n = 95 \<or> (97 \<le> n \<and> n \<le> 122)
        \<or> n = 170 \<or> n = 178 \<or> n = 179 \<or> n = 181 \<or> n = 185 \<or> n = 186
        \<or> (188 \<le> n \<and> n \<le> 190) \<or> (192 \<le> n \<and> n \<le> 214) \<or> (216 \<le> n \<and> n \<le> 246)
        \<or> 248 \<le> n)"

fun findall_words :: "string \<Rightarrow> string \<Rightarrow> string list" where
  "findall_words cur [] = (if cur = [] then [] else [rev cur])"
| "findall_words cur (c # cs) =
     (if is_word_char c then findall_words (c # cur) cs
      else if cur = [] then findall_words [] cs
      else rev cur # findall_words [] cs)"

text \<open>Python's \<open>a / b\<close> on two ints: \<open>ZeroDivisionError\<close> when \<open>b = 0\<close>, otherwise the
  quotient (taken exactly; the rounding to a float is not modelled).\<close>

definition truediv :: "int \<Rightarrow> int \<Rightarrow> py_exception + rat" where
  "truediv a b =
     (if b = 0 then Inl (Exception ''division by zero'') else Inr (of_int a / of_int b))"

definition repo_text :: "repository \<Rightarrow> string" where
  "repo_text repo =
     lower (name repo @ '' '' @ (case description repo of None \<Rightarrow> [] | Some d \<Rightarrow> d))"

definition has_exclusion_keyword :: "collector \<Rightarrow> repository \<Rightarrow> bool" where
  "has_exclusion_keyword self repo =
     list_ex (\<lambda>kw. str_contains (lower kw) (repo_text repo)) (exclusion_keywords self)"

definition active_weeks :: "datetime list \<Rightarrow> (int \<times> int) set" where
  "active_weeks commit_dates = set (map (\<lambda>d. (fst (snd (isocalendar d)), year d)) commit_dates)"

definition total_words :: "string list \<Rightarrow> int" where
  "total_words messages = sum_list (map (\<lambda>msg. int (length (findall_words [] msg))) messages)"

definition avg_words :: "commit list \<Rightarrow> py_exception + rat" where
  "avg_words commits =
     truediv (total_words (map message commits)) (max (int (length commits)) 1)"

text \<open>The statistics part of the validator, on the commits of the window.\<close>

definition commit_checks :: "collector \<Rightarrow> commit list \<Rightarrow> py_exception + bool" where
  "commit_checks self commits =
     (let commit_dates = map author_date commits;
          total_commits = int (length commit_dates)
      in if total_commits < min_commits_2024 self then Inr False
         else if int (card (active_weeks commit_dates)) < min_active_weeks self then Inr False
         else (case avg_words commits of
                 Inl e \<Rightarrow> Inl e
               | Inr avg \<Rightarrow> if avg < of_int (min_avg_words self) then Inr False else Inr True))"

text \<open>The result is the returned boolean (or the exception the call ends in) and the
  events of the call, in order.\<close>

definition repo_is_valid :: "collector \<Rightarrow> repository \<Rightarrow> (py_exception + bool) \<times> event list" where
  "repo_is_valid self repo =
     (if exclude_forks self \<and> fork repo then
        (Inr False, [Print_excluding_forked (full_name repo)])
      else if has_exclusion_keyword self repo then
        (Inr False, [Print_excluding_keywords (full_name repo)])
      else
        (case get_commits repo of
           Inl e \<Rightarrow> (Inl e, [Request_commits (full_name repo)])
         | Inr commits \<Rightarrow> (commit_checks self commits, [Request_commits (full_name repo)])))"

subsection \<open>\<open>filter_repos\<close>\<close>

definition signature :: "repository \<Rightarrow> string \<times> int" where
  "signature repo = (full_name repo, repo_size repo)"

text \<open>The loop of \<open>filter_repos\<close>, with its two variables \<open>valid\<close> and
  \<open>seen_signatures\<close>. An exception of the validator ends it.\<close>

fun filter_loop ::
  "collector \<Rightarrow> repository list \<Rightarrow> repository list \<Rightarrow> (string \<times> int) set
     \<Rightarrow> (py_exception + repository list) \<times> event list" where
  "filter_loop self [] valid seen_signatures = (Inr valid, [])"
| "filter_loop self (repo # rest) valid seen_signatures =
     (case repo_is_valid self repo of
        (Inl e, evs) \<Rightarrow> (Inl e, evs)
      | (Inr ok, evs) \<Rightarrow>
          (let (res, evs') =
                 (if \<not> ok then filter_loop self rest valid seen_signatures
                  else if signature repo \<in> seen_signatures
                       then filter_loop self rest valid seen_signatures
                  else filter_loop self rest (valid @ [repo])
                         (insert (signature repo) seen_signatures))
           in (res, evs @ evs')))"

text \<open>
  \<open>filter_repos\<close> assigns its list to \<open>self.valid_repos\<close> and has no \<open>return\<close>
  statement. The result is the value the call returns, which is \<open>None\<close>, and the
  collector after the call.
\<close>

definition filter_repos ::
  "collector \<Rightarrow> repository list
     \<Rightarrow> (py_exception + repository list option \<times> collector) \<times> event list" where
  "filter_repos self repos_arg =
     (case filter_loop self repos_arg [] {} of
        (Inl e, evs) \<Rightarrow> (Inl e, evs)
      | (Inr valid, evs) \<Rightarrow> (Inr (None, self\<lparr>valid_repos := Some valid\<rparr>), evs))"

subsection \<open>\<open>collect_pull_requests\<close>\<close>

text \<open>One row of the table of pull requests.\<close>

record pr_row =
  row_repo_full_name :: string
  row_pr_number :: int
  row_title :: string
  row_body :: string
  row_author :: string
  row_created_at :: datetime
  row_state :: string
  row_merged :: bool

definition make_row :: "string \<Rightarrow> pull_request \<Rightarrow> bool \<Rightarrow> pr_row" where
  "make_row fn pr m =
     \<lparr> row_repo_full_name = fn, row_pr_number = number pr, row_title = title pr,
       row_body = (case body pr of None \<Rightarrow> [] | Some b \<Rightarrow> b),
       row_author = (case user_login pr of None \<Rightarrow> ''unknown'' | Some l \<Rightarrow> l),
       row_created_at = created_at pr, row_state = state pr, row_merged = m \<rparr>"

text \<open>The inner loop \<open>for pr in pulls: data.append(...)\<close>: the exception that ends it,
  if any, and \<open>data\<close> as it is then.\<close>

fun append_rows ::
  "string \<Rightarrow> pull_request list \<Rightarrow> pr_row list \<Rightarrow> py_exception option \<times> pr_row list" where
  "append_rows fn [] data = (None, data)"
| "append_rows fn (pr # prs) data =
     (case is_merged pr of
        Inl e \<Rightarrow> (Some e, data)
      | Inr m \<Rightarrow> append_rows fn prs (data @ [make_row fn pr m]))"

text \<open>The body of the outer loop for one repository: the \<open>try\<close> block and its handler.\<close>

definition collect_repo_pulls :: "repository \<Rightarrow> pr_row list \<Rightarrow> pr_row list \<times> event list" where
  "collect_repo_pulls repo data =
     (case get_pulls repo of
        Inl e \<Rightarrow> (data, [Print_failed_prs (full_name repo) e])
      | Inr listing \<Rightarrow>
          (case append_rows (full_name repo) (pulls listing) data of
             (Some e, data') \<Rightarrow>
               (data', [Print_collecting_prs (full_name repo) (totalCount listing),
                        Print_failed_prs (full_name repo) e])
           | (None, data') \<Rightarrow>
               (case next_page_error listing of
                  Some e \<Rightarrow>
                    (data', [Print_collecting_prs (full_name repo) (totalCount listing),
                             Print_failed_prs (full_name repo) e])
                | None \<Rightarrow>
                    (data', [Print_collecting_prs (full_name repo) (totalCount listing)]))))"

fun collect_loop :: "repository list \<Rightarrow> pr_row list \<Rightarrow> pr_row list \<times> event list" where
  "collect_loop [] data = (data, [])"
| "collect_loop (repo # rest) data =
     (let (data', evs) = collect_repo_pulls repo data;
          (data'', evs') = collect_loop rest data'
      in (data'', evs @ evs'))"

text \<open>The table is the list of its rows. With no argument and \<open>self.repos\<close> unset, the
  loop over \<open>None\<close> raises outside the \<open>try\<close>.\<close>

definition collect_pull_requests ::
  "collector \<Rightarrow> repository list option \<Rightarrow> (py_exception + pr_row list) \<times> event list" where
  "collect_pull_requests self repos_arg =
     (case (case repos_arg of None \<Rightarrow> repos self | Some rs \<Rightarrow> Some rs) of
        None \<Rightarrow>
          (Inl (Exception (CHR 0x27 # ''NoneType'' @ CHR 0x27 # '' object is not iterable'')), [])
      | Some rs \<Rightarrow> (case collect_loop rs [] of (data, evs) \<Rightarrow> (Inr data, evs)))"

section \<open>The classifiers\<close>

subsection \<open>\<open>str.strip\<close> and \<open>str.split\<close> with no argument\<close>

text \<open>Both work on whitespace as \<open>str.isspace\<close> has it; \<open>is_space\<close> lists the
  whitespace characters below 256.\<close>

definition is_space :: "char \<Rightarrow> bool" where
  "is_space c =
     (let n = of_char c :: nat in
        (9 \<le> n \<and> n \<le> 13) \<or> (28 \<le> n \<and> n \<le> 32) \<or> n = 133 \<or> n = 160)"

definition strip :: "string \<Rightarrow> string" where
  "strip s = rev (dropWhile is_space (rev (dropWhile is_space s)))"

text \<open>\<open>s.split()\<close>: skip the whitespace, take the run up to the next whitespace, and go
  on with what follows it.\<close>

function str_split :: "string \<Rightarrow> string list" where
  "str_split s =
     (let s' = dropWhile is_space s
      in if s' = [] then []
         else takeWhile (\<lambda>c. \<not> is_space c) s' # str_split (dropWhile (\<lambda>c. \<not> is_space c) s'))"
  by pat_completeness auto
termination
proof (relation "measure length")
  show "wf (measure length)" by simp
next
  fix s s' :: string
  assume s': "s' = dropWhile is_space s" and ne: "s' \<noteq> []"
  from ne have "\<not> is_space (hd s')"
    unfolding s' by (rule hd_dropWhile)
  with ne have "dropWhile (\<lambda>c. \<not> is_space c) s' = dropWhile (\<lambda>c. \<not> is_space c) (tl s')"
    by (cases s') simp_all
  then have "length (dropWhile (\<lambda>c. \<not> is_space c) s') \<le> length (tl s')"
    by (simp only: length_dropWhile_le)
  also from ne have "\<dots> < length s'" by (cases s') simp_all
  also have "\<dots> \<le> length s" unfolding s' by (rule length_dropWhile_le)
  finally show "(dropWhile (\<lambda>c. \<not> is_space c) s', s) \<in> measure length" by simp
qed

declare str_split.simps [simp del]

subsection \<open>\<open>generate_results_gemini.py\<close>\<close>

definition categories :: "string list" where
  "categories = [''Corrective'', ''Adaptive'', ''Perfective'', ''Preventive'', ''Development'']"

text \<open>\<open>', '.join(categories)\<close>.\<close>

fun join_comma :: "string list \<Rightarrow> string" where
  "join_comma [] = []"
| "join_comma [x] = x"
| "join_comma (x # y # ys) = x @ '', '' @ join_comma (y # ys)"

definition gemini_prompt :: "string \<Rightarrow> string \<Rightarrow> string" where
  "gemini_prompt survey_result commit_message =
     ''You are an expert at classifying software development commits based on a survey result and the commit message.''
     @ [CHR 0x0A] @ ''    Classify the following commit message into one of these categories: ''
     @ join_comma categories @ ''.''
     @ [CHR 0x0A] @ ''    Provide your answer as a single word representing the category.''
     @ [CHR 0x0A]
     @ [CHR 0x0A] @ ''    Survey Result:''
     @ [CHR 0x0A] @ ''    '' @ survey_result
     @ [CHR 0x0A]
     @ [CHR 0x0A] @ ''    Commit Message:''
     @ [CHR 0x0A] @ ''    '' @ commit_message
     @ [CHR 0x0A]
     @ [CHR 0x0A] @ ''    Classification:''
     @ [CHR 0x0A] @ ''    ''"

text \<open>
  The text-generation service is a parameter: \<open>generate_content prompt\<close> is the
  \<open>response.text\<close> of \<open>model.generate_content([prompt])\<close>, or the exception raised by the
  call or by reading the text. The result is the returned string and the lines printed.
\<close>

definition classify_commit_gemini ::
  "(string \<Rightarrow> py_exception + string) \<Rightarrow> string \<Rightarrow> string \<Rightarrow> string \<times> event list" where
  "classify_commit_gemini generate_content survey_result commit_message =
     (case generate_content (gemini_prompt survey_result commit_message) of
        Inl e \<Rightarrow> (''Error'', [Print_classification_error e])
      | Inr text \<Rightarrow>
          if text \<noteq> [] then
            (case str_split (strip text) of
               [] \<Rightarrow> (''Error'', [Print_classification_error (Exception ''list index out of range'')])
             | classification # _ \<Rightarrow>
                 if classification \<in> set categories then (classification, [])
                 else (''Unknown'', []))
          else (''No response'', []))"

text \<open>\<open>classify_multiple_commits\<close>: the dictionary \<open>results\<close> is a map.\<close>

fun classify_loop ::
  "(string \<Rightarrow> py_exception + string) \<Rightarrow> string \<Rightarrow> string list \<Rightarrow> (string \<rightharpoonup> string)
     \<Rightarrow> (string \<rightharpoonup> string) \<times> event list" where
  "classify_loop generate_content survey [] results = (results, [])"
| "classify_loop generate_content survey (commit_message # rest) results =
     (let (classification, evs) = classify_commit_gemini generate_content survey commit_message;
          (results', evs') =
            classify_loop generate_content survey rest (results(commit_message \<mapsto> classification))
      in (results', evs @ evs'))"

definition classify_multiple_commits ::
  "(string \<Rightarrow> py_exception + string) \<Rightarrow> string list \<Rightarrow> string
     \<Rightarrow> (string \<rightharpoonup> string) \<times> event list" where
  "classify_multiple_commits generate_content commits_data sample_survey_result =
     classify_loop generate_content sample_survey_result commits_data Map.empty"

subsection \<open>\<open>generate_results_gpt.py\<close>\<close>

definition SURVEY_TEXT :: string where
  "SURVEY_TEXT =
     [CHR 0x0A] @ ''You are an expert in software maintenance. Classify commit messages into one of the following categories:''
     @ [CHR 0x0A]
     @ [CHR 0x0A] @ ''- Corrective''
     @ [CHR 0x0A] @ ''- Adaptive''
     @ [CHR 0x0A] @ ''- Perfective''
     @ [CHR 0x0A] @ ''- Preventive''
     @ [CHR 0x0A] @ ''- Development''
     @ [CHR 0x0A]
     @ [CHR 0x0A] @ ''Respond using only ONE word. Below is the guiding survey used internally by the team:''
     @ [CHR 0x0A]
     @ [CHR 0x0A] @ ''1. Does the change fix a bug or issue?''
     @ [CHR 0x0A] @ ''2. Does it adapt the system to a new environment?''
     @ [CHR 0x0A] @ ''3. Does it improve performance, maintainability, or SEO?''
     @ [CHR 0x0A] @ ''4. Does it aim to prevent future issues?''
     @ [CHR 0x0A] @ ''5. Is it part of initial development?''
     @ [CHR 0x0A]
     @ [CHR 0x0A] @ ''[... continue up to question 30 ...]''
     @ [CHR 0x0A]"

text \<open>
  \<open>create model messages\<close> is the \<open>response['choices'][0]['message']['content']\<close> of
  \<open>openai.ChatCompletion.create(model=model, messages=messages, temperature=0)\<close>, or the
  exception raised by the call or by reading the content. A message is its role and its
  content.
\<close>

definition classify_commit_gpt ::
  "(string \<Rightarrow> (string \<times> string) list \<Rightarrow> py_exception + string) \<Rightarrow> string \<Rightarrow> string
     \<Rightarrow> string \<times> event list" where
  "classify_commit_gpt create commit_message model =
     (case create model [(''system'', SURVEY_TEXT), (''user'', ''Commit: '' @ commit_message)] of
        Inl e \<Rightarrow> (''Error'', [Print_error e])
      | Inr content \<Rightarrow> (strip content, []))"

section \<open>The specification's wording, for comparison\<close>

text \<open>The set of distinct (ISO week number, ISO week-year) pairs of the timestamps, as
  the specification words the active weeks.\<close>

definition spec_active_weeks :: "datetime list \<Rightarrow> (int \<times> int) set" where
  "spec_active_weeks commit_dates =
     set (map (\<lambda>d. (fst (snd (isocalendar d)), fst (isocalendar d))) commit_dates)"

text \<open>The first whitespace-delimited token of a response text.\<close>

definition spec_first_token :: "string \<Rightarrow> string" where
  "spec_first_token s = takeWhile (\<lambda>c. \<not> is_space c) (dropWhile is_space s)"

text \<open>
  A repository passes the validator when \<open>_repo_is_valid\<close> returns \<open>True\<close> for it, and
  the validator raises on it when the call ends in an exception. The entry at position
  \<open>i\<close> of a list is retained when it passes and no earlier entry that passes has its
  signature.
\<close>

definition passes :: "collector \<Rightarrow> repository \<Rightarrow> bool" where
  "passes self repo = (fst (repo_is_valid self repo) = Inr True)"

definition retained :: "collector \<Rightarrow> repository list \<Rightarrow> nat \<Rightarrow> bool" where
  "retained self rs i =
     (passes self (rs ! i)
      \<and> (\<forall>j \<in> set [0..<i]. passes self (rs ! j) \<longrightarrow> signature (rs ! j) \<noteq> signature (rs ! i)))"

definition raises :: "collector \<Rightarrow> repository \<Rightarrow> bool" where
  "raises self repo = isl (fst (repo_is_valid self repo))"

section \<open>Example values\<close>

definition example_config :: "py_exception + (string \<rightharpoonup> string)" where
  "example_config = Inr [''github_token'' \<mapsto> ''ghp_example'']"

definition default_collector :: collector where
  "default_collector =
     \<lparr> min_commits_2024 = 200, min_active_weeks = 5, min_avg_words = 5,
       exclusion_keywords = [''student'', ''exercise'', ''tutorial''], exclude_forks = True,
       repos = None, valid_repos = None \<rparr>"

definition lenient_collector :: collector where
  "lenient_collector =
     \<lparr> min_commits_2024 = 2, min_active_weeks = 2, min_avg_words = 1,
       exclusion_keywords = [''student'', ''exercise'', ''tutorial''], exclude_forks = True,
       repos = None, valid_repos = None \<rparr>"

definition commit_on :: "int \<Rightarrow> int \<Rightarrow> int \<Rightarrow> string \<Rightarrow> commit" where
  "commit_on y m d msg = \<lparr> author_date = \<lparr> year = y, month = m, day = d \<rparr>, message = msg \<rparr>"

definition example_repo :: "string \<Rightarrow> string option \<Rightarrow> bool \<Rightarrow> int \<Rightarrow> commit list \<Rightarrow> repository" where
  "example_repo n descr fk sz cs =
     \<lparr> full_name = ''octo/'' @ n, name = n, description = descr, fork = fk, repo_size = sz,
       get_commits = Inr cs, get_pulls = Inl (Exception ''not found'') \<rparr>"

definition no_threshold_collector :: collector where
  "no_threshold_collector =
     \<lparr> min_commits_2024 = 0, min_active_weeks = 0, min_avg_words = 5,
       exclusion_keywords = [''student'', ''exercise'', ''tutorial''], exclude_forks = True,
       repos = None, valid_repos = None \<rparr>"

definition year_edge_commits :: "commit list" where
  "year_edge_commits =
     [commit_on 2024 1 2 ''Start the new parser'', commit_on 2024 12 31 ''Close the year'']"

definition year_turn_commits :: "commit list" where
  "year_turn_commits =
     [commit_on 2024 12 31 ''Close the year'', commit_on 2025 1 2 ''Open the year'']"

definition active_commits :: "commit list" where
  "active_commits =
     [commit_on 2024 3 5 ''Fix the lexer for nested block comments'',
      commit_on 2024 6 10 ''Add snapshot tests for the parser'']"

definition candidate_repos :: "repository list" where
  "candidate_repos =
     [example_repo ''parser'' None False 7 active_commits,
      example_repo ''forked'' None True 3 active_commits,
      example_repo ''parser'' (Some ''second search hit'') False 7 active_commits,
      example_repo ''lexer'' None False 9 active_commits]"

definition duplicate_repos :: "repository list" where
  "duplicate_repos =
     [example_repo ''parser'' (Some ''Parser tutorial'') False 7 active_commits,
      example_repo ''parser'' (Some ''Parser library'') False 7 active_commits]"

definition example_pr :: "int \<Rightarrow> string \<Rightarrow> py_exception + bool \<Rightarrow> pull_request" where
  "example_pr n t m =
     \<lparr> number = n, title = t, body = None, user_login = Some ''alice'',
       created_at = \<lparr> year = 2024, month = 6, day = 1 \<rparr>, state = ''closed'', is_merged = m \<rparr>"

definition pulls_repo :: "string \<Rightarrow> py_exception + pull_listing \<Rightarrow> repository" where
  "pulls_repo n l =
     \<lparr> full_name = ''octo/'' @ n, name = n, description = None, fork = False, repo_size = 1,
       get_commits = Inr [], get_pulls = l \<rparr>"

definition flaky_repo :: repository where
  "flaky_repo =
     pulls_repo ''flaky''
       (Inr \<lparr> totalCount = 2,
              pulls = [example_pr 2 ''Add cache'' (Inr True),
                       example_pr 1 ''Fix typo'' (Inl (Exception ''rate limit exceeded''))],
              next_page_error = None \<rparr>)"

definition truncated_repo :: repository where
  "truncated_repo =
     pulls_repo ''truncated''
       (Inr \<lparr> totalCount = 40, pulls = [example_pr 40 ''Update docs'' (Inr True)],
              next_page_error = Some (Exception ''502 server error'') \<rparr>)"

definition healthy_repo :: repository where
  "healthy_repo =
     pulls_repo ''healthy''
       (Inr \<lparr> totalCount = 1, pulls = [example_pr 7 ''Bump version'' (Inr False)],
              next_page_error = None \<rparr>)"

definition missing_repo :: repository where
  "missing_repo = pulls_repo ''missing'' (Inl (Exception ''404 not found''))"

definition failing_service :: "string \<Rightarrow> py_exception + string" where
  "failing_service prompt = Inl (Exception ''503 service unavailable'')"

definition failing_chat :: "string \<Rightarrow> (string \<times> string) list \<Rightarrow> py_exception + string" where
  "failing_chat model messages = Inl (Exception ''503 service unavailable'')"

definition banana_service :: "string \<Rightarrow> py_exception + string" where
  "banana_service prompt = Inr ''Banana extra text''"

definition corrective_service :: "string \<Rightarrow> py_exception + string" where
  "corrective_service prompt = Inr ('' Corrective'' @ [CHR 0x0A])"

definition banana_chat :: "string \<Rightarrow> (string \<times> string) list \<Rightarrow> py_exception + string" where
  "banana_chat model messages = Inr ''Banana extra text''"

section \<open>Properties of the validator\<close>

text \<open>
  Claim C8. With \<open>exclude_forks\<close> set, a repository whose fork flag is true is rejected
  whatever its commit history is: the validator returns \<open>False\<close> after printing one line,
  and the commit history is never requested, so no commit statistic is computed.
\<close>

theorem fork_rejected:
  "exclude_forks self \<Longrightarrow> fork repo \<Longrightarrow>
   repo_is_valid self repo = (Inr False, [Print_excluding_forked (full_name repo)])
   \<and> (\<forall>n. Request_commits n \<notin> set (snd (repo_is_valid self repo)))"
  by (simp add: repo_is_valid_def)

theorem fork_rejected_witness:
  "repo_is_valid default_collector
     (example_repo ''parser'' None True 7
        (replicate 300 (commit_on 2024 3 5 ''Fix the lexer for nested block comments'')))
   = (Inr False, [Print_excluding_forked ''octo/parser''])"
  using fork_rejected [of default_collector
         "example_repo ''parser'' None True 7
            (replicate 300 (commit_on 2024 3 5 ''Fix the lexer for nested block comments''))"]
  by (simp add: default_collector_def example_repo_def)

text \<open>
  Claim C6. A repository for which some exclusion keyword, lower-cased, occurs in the
  lower-cased text made of its name, one space and its description (empty when absent)
  is rejected, and the events of the call contain no commit-history request.
\<close>

theorem keyword_rejected_before_fetch:
  assumes "kw \<in> set (exclusion_keywords self)"
    and "str_contains (lower kw)
           (lower (name repo @ '' '' @ (case description repo of None \<Rightarrow> [] | Some d \<Rightarrow> d)))"
  shows "fst (repo_is_valid self repo) = Inr False
         \<and> (\<forall>n. Request_commits n \<notin> set (snd (repo_is_valid self repo)))"
proof -
  from assms have "has_exclusion_keyword self repo"
    by (auto simp: has_exclusion_keyword_def repo_text_def list_ex_iff)
  then show ?thesis by (simp add: repo_is_valid_def)
qed

theorem keyword_rejected_before_fetch_witness:
  "fst (repo_is_valid default_collector
          (example_repo ''Algo-Course'' (Some ''Weekly EXERCISE sheets'') False 10 [])) = Inr False
   \<and> (\<forall>n. Request_commits n \<notin> set (snd (repo_is_valid default_collector
          (example_repo ''Algo-Course'' (Some ''Weekly EXERCISE sheets'') False 10 []))))"
proof -
  have 1: "''exercise'' \<in> set (exclusion_keywords default_collector)"
    by (simp add: default_collector_def)
  have 2: "str_contains (lower ''exercise'')
       (lower (name (example_repo ''Algo-Course'' (Some ''Weekly EXERCISE sheets'') False 10 []) @ '' '' @
          (case description (example_repo ''Algo-Course'' (Some ''Weekly EXERCISE sheets'') False 10 []) of None \<Rightarrow> [] | Some d \<Rightarrow> d)))"
    by code_simp
  from keyword_rejected_before_fetch [OF 1 2] show ?thesis .
qed

text \<open>
  Claim C9. With the thresholds 200, 5 and 5, a repository that is not a fork, has no
  exclusion keyword and has exactly 199 commits in the window is rejected, whatever the
  dates and messages of these commits are: the validator returns \<open>False\<close> right after
  the one commit-history request.
\<close>

theorem commits_199_rejected:
  assumes "min_commits_2024 self = 200" and "min_active_weeks self = 5"
    and "min_avg_words self = 5"
    and "\<not> fork repo" and "\<not> has_exclusion_keyword self repo"
    and "get_commits repo = Inr commits" and "length commits = 199"
  shows "repo_is_valid self repo = (Inr False, [Request_commits (full_name repo)])"
  using assms by (simp add: repo_is_valid_def commit_checks_def)

theorem commits_199_rejected_witness:
  "repo_is_valid default_collector
     (example_repo ''parser'' None False 7 (replicate 199 (commit_on 2024 3 5 ''Fix the lexer for nested block comments'')))
   = (Inr False, [Request_commits ''octo/parser''])"
proof -
  let ?r = "example_repo ''parser'' None False 7 (replicate 199 (commit_on 2024 3 5 ''Fix the lexer for nested block comments''))"
  have "\<not> list_ex (\<lambda>kw. str_contains (lower kw) (lower ''parser ''))
           [''student'', ''exercise'', ''tutorial'']"
    by code_simp
  then have nk: "\<not> has_exclusion_keyword default_collector ?r"
    by (simp add: has_exclusion_keyword_def repo_text_def example_repo_def default_collector_def)
  have "repo_is_valid default_collector ?r = (Inr False, [Request_commits (full_name ?r)])"
  proof (rule commits_199_rejected [OF _ _ _ _ nk])
    show "get_commits ?r = Inr (replicate 199 (commit_on 2024 3 5 ''Fix the lexer for nested block comments''))"
      by (simp add: example_repo_def)
    show "length (replicate 199 (commit_on 2024 3 5 ''Fix the lexer for nested block comments'')) = 199"
      by (rule length_replicate)
  qed (simp_all add: default_collector_def example_repo_def)
  then show ?thesis by (simp add: example_repo_def)
qed

lemma avg_words_eq:
  "avg_words commits =
     Inr (of_int (total_words (map message commits)) / of_int (max (int (length commits)) 1))"
  by (simp add: avg_words_def truediv_def)

text \<open>
  Claim C4. The divisor of the average word count is the larger of the commit count and
  1, so it is never zero and the division never raises: the average is the total word
  count over that divisor, it is 0 for the empty list of commits, the only exception
  the validator can end in is the one of the commit-history request, and a repository
  whose average is below \<open>min_avg_words\<close> is rejected.
\<close>

theorem avg_words_divisor_floored:
  "max (int (length commits)) 1 \<noteq> 0
   \<and> avg_words commits =
       Inr (of_int (total_words (map message commits)) / of_int (max (int (length commits)) 1))
   \<and> avg_words [] = Inr 0
   \<and> (\<forall>e. fst (repo_is_valid self repo) = Inl e \<longrightarrow> get_commits repo = Inl e)
   \<and> (\<forall>a. get_commits repo = Inr commits \<and> avg_words commits = Inr a
          \<and> a < of_int (min_avg_words self)
        \<longrightarrow> fst (repo_is_valid self repo) = Inr False)"
proof -
  have 1: "max (int (length commits)) 1 \<noteq> 0" by simp
  have 2: "avg_words [] = Inr 0"
    by (simp add: avg_words_eq total_words_def)
  have 3: "get_commits repo = Inl e" if "fst (repo_is_valid self repo) = Inl e" for e
    using that
    by (auto simp: repo_is_valid_def commit_checks_def avg_words_eq Let_def
             split: if_splits sum.splits)
  have 4: "fst (repo_is_valid self repo) = Inr False"
    if "get_commits repo = Inr commits" "avg_words commits = Inr a"
       "a < of_int (min_avg_words self)" for a
    using that by (simp add: repo_is_valid_def commit_checks_def Let_def)
  from 1 2 3 4 show ?thesis by (simp add: avg_words_eq)
qed

theorem avg_words_divisor_floored_witness:
  "get_commits (example_repo ''parser'' None False 7 []) = Inr []
   \<and> avg_words [] = Inr 0
   \<and> (0 :: rat) < of_int (min_avg_words no_threshold_collector)
   \<and> fst (repo_is_valid no_threshold_collector (example_repo ''parser'' None False 7 [])) = Inr False"
proof -
  let ?r = "example_repo ''parser'' None False 7 []"
  have g: "get_commits ?r = Inr []" by (simp add: example_repo_def)
  have m: "(0 :: rat) < of_int (min_avg_words no_threshold_collector)"
    by (simp add: no_threshold_collector_def)
  from avg_words_divisor_floored [of "[]" no_threshold_collector ?r]
  have a: "avg_words [] = Inr 0"
    and r: "\<forall>a. get_commits ?r = Inr [] \<and> avg_words [] = Inr a
              \<and> a < of_int (min_avg_words no_threshold_collector)
            \<longrightarrow> fst (repo_is_valid no_threshold_collector ?r) = Inr False"
    by blast+
  from r g a m have "fst (repo_is_valid no_threshold_collector ?r) = Inr False" by blast
  with g a m show ?thesis by blast
qed

text \<open>
  Claim C1. The validator pairs the ISO week number of a timestamp with its calendar
  year, \<open>d.year\<close>, not with its ISO week-year. For commits of 2 January 2024 and
  31 December 2024 (ISO week 1 of 2024 and ISO week 1 of 2025) it counts one active week
  where the set of (ISO week, ISO week-year) pairs has two, and with
  \<open>min_active_weeks = 2\<close> it rejects the repository. For 31 December 2024 and
  2 January 2025, which lie in the same ISO week, it counts two.
\<close>

theorem active_weeks_use_calendar_year:
  "active_weeks (map author_date year_edge_commits) = {(1, 2024)}
   \<and> spec_active_weeks (map author_date year_edge_commits) = {(1, 2024), (1, 2025)}
   \<and> card (active_weeks (map author_date year_edge_commits)) = 1
   \<and> card (spec_active_weeks (map author_date year_edge_commits)) = 2
   \<and> fst (repo_is_valid lenient_collector (example_repo ''parser'' None False 7 year_edge_commits))
       = Inr False
   \<and> card (active_weeks (map author_date year_turn_commits)) = 2
   \<and> card (spec_active_weeks (map author_date year_turn_commits)) = 1"
  by code_simp

section \<open>Properties of the constructor\<close>

text \<open>
  Claim C10. Constructing the collector with the empty list of exclusion keywords gives
  the same result as constructing it with none, and the collector then holds the default
  keywords student, exercise and tutorial.
\<close>

theorem empty_keywords_default:
  "init config mc maw mavg (Some []) ef = init config mc maw mavg None ef
   \<and> (\<forall>self. init config mc maw mavg (Some []) ef = Inr self
        \<longrightarrow> exclusion_keywords self = [''student'', ''exercise'', ''tutorial''])"
  by (auto simp: init_def split: sum.splits option.splits if_splits)

theorem empty_keywords_default_witness:
  "\<exists>self. init example_config 200 5 5 (Some []) True = Inr self
     \<and> init example_config 200 5 5 None True = Inr self
     \<and> exclusion_keywords self = [''student'', ''exercise'', ''tutorial'']"
proof -
  have "init example_config 200 5 5 (Some []) True = Inr default_collector"
    by (simp add: init_def example_config_def default_collector_def)
  with empty_keywords_default [of example_config 200 5 5 True] show ?thesis
    by (metis (no_types))
qed

section \<open>Properties of the filter\<close>

lemma filter_loop_step:
  assumes "\<not> raises self r"
  shows "fst (filter_loop self (r # rs) valid seen) =
     (if passes self r \<and> signature r \<notin> seen
      then fst (filter_loop self rs (valid @ [r]) (insert (signature r) seen))
      else fst (filter_loop self rs valid seen))"
proof (cases "repo_is_valid self r")
  case (Pair res evs)
  with assms obtain ok where ok: "res = Inr ok"
    by (cases res) (simp_all add: raises_def)
  with Pair show ?thesis
    by (cases ok) (simp_all add: passes_def split_beta)
qed

lemma filter_loop_positions:
  assumes "\<forall>r \<in> set rest. \<not> raises self r"
    and "seen = signature ` {r \<in> set pre. passes self r}"
  shows "fst (filter_loop self rest valid seen) =
     Inr (valid @ map (nth (pre @ rest))
            (filter (retained self (pre @ rest)) [length pre ..< length pre + length rest]))"
  using assms
proof (induction rest arbitrary: pre valid seen)
  case Nil
  then show ?case by simp
next
  case (Cons r rs)
  let ?all = "pre @ r # rs"
  have nr: "\<not> raises self r" and nrs: "\<forall>x \<in> set rs. \<not> raises self x"
    using Cons.prems(1) by simp_all
  have all: "(pre @ [r]) @ rs = ?all" by simp
  have ret: "retained self ?all (length pre) \<longleftrightarrow> passes self r \<and> signature r \<notin> seen"
  proof -
    have "(\<forall>j<length pre. passes self (?all ! j) \<longrightarrow> signature (?all ! j) \<noteq> signature r)
          \<longleftrightarrow> signature r \<notin> seen"
      unfolding Cons.prems(2)
      by (auto simp: nth_append in_set_conv_nth image_iff)
    then show ?thesis by (auto simp: retained_def)
  qed
  have upt: "[length pre ..< length pre + length (r # rs)] =
             length pre # [length (pre @ [r]) ..< length (pre @ [r]) + length rs]"
    by (subst upt_rec) simp
  let ?later = "filter (retained self ?all) [length (pre @ [r]) ..< length (pre @ [r]) + length rs]"
  show ?case
  proof (cases "passes self r \<and> signature r \<notin> seen")
    case True
    have seen': "insert (signature r) seen = signature ` {x \<in> set (pre @ [r]). passes self x}"
      using True Cons.prems(2) by auto
    have s: "fst (filter_loop self (r # rs) valid seen) =
             fst (filter_loop self rs (valid @ [r]) (insert (signature r) seen))"
      using True by (simp add: filter_loop_step [OF nr] del: filter_loop.simps)
    have ih: "fst (filter_loop self rs (valid @ [r]) (insert (signature r) seen)) =
              Inr ((valid @ [r]) @ map (nth ?all) ?later)"
      using Cons.IH [OF nrs seen', of "valid @ [r]"] unfolding all .
    have f: "filter (retained self ?all) [length pre ..< length pre + length (r # rs)] =
             length pre # ?later"
      unfolding upt using True ret by simp
    have n: "?all ! length pre = r" by simp
    show ?thesis unfolding s ih f by (simp only: list.map n append_assoc append.simps)
  next
    case False
    have seen': "seen = signature ` {x \<in> set (pre @ [r]). passes self x}"
      using False Cons.prems(2) by auto
    have s: "fst (filter_loop self (r # rs) valid seen) = fst (filter_loop self rs valid seen)"
      using False by (auto simp add: filter_loop_step [OF nr] simp del: filter_loop.simps)
    have ih: "fst (filter_loop self rs valid seen) = Inr (valid @ map (nth ?all) ?later)"
      using Cons.IH [OF nrs seen', of valid] unfolding all .
    have f: "filter (retained self ?all) [length pre ..< length pre + length (r # rs)] = ?later"
      unfolding upt using False ret by simp
    show ?thesis unfolding s ih f ..
  qed
qed

lemma filter_loop_subseq:
  assumes "fst (filter_loop self rest valid seen) = Inr out"
  shows "\<exists>ys. out = valid @ ys \<and> subseq ys rest"
  using assms
proof (induction rest arbitrary: valid seen)
  case Nil
  then show ?case by auto
next
  case (Cons r rs)
  show ?case
  proof (cases "raises self r")
    case True
    then obtain e evs where "repo_is_valid self r = (Inl e, evs)"
      by (cases "repo_is_valid self r"; cases "fst (repo_is_valid self r)") (auto simp: raises_def)
    with Cons.prems show ?thesis by simp
  next
    case False
    show ?thesis
    proof (cases "passes self r \<and> signature r \<notin> seen")
      case True
      with Cons.prems False
      have "fst (filter_loop self rs (valid @ [r]) (insert (signature r) seen)) = Inr out"
        by (simp add: filter_loop_step del: filter_loop.simps)
      from Cons.IH [OF this] obtain ys where "out = (valid @ [r]) @ ys" "subseq ys rs"
        by blast
      then have "out = valid @ (r # ys) \<and> subseq (r # ys) (r # rs)" by simp
      then show ?thesis by blast
    next
      case nt: False
      with Cons.prems False have "fst (filter_loop self rs valid seen) = Inr out"
        by (simp add: filter_loop_step del: filter_loop.simps)
      from Cons.IH [OF this] obtain ys where "out = valid @ ys" "subseq ys rs"
        by blast
      then have "out = valid @ ys \<and> subseq ys (r # rs)" by (simp add: list_emb_Cons)
      then show ?thesis by blast
    qed
  qed
qed

lemma retained_distinct:
  "distinct (map signature (map (nth rs) (filter (retained self rs) [0..<length rs])))"
proof -
  have "inj_on (\<lambda>i. signature (rs ! i)) (set (filter (retained self rs) [0..<length rs]))"
  proof (rule inj_onI)
    fix i j
    assume i: "i \<in> set (filter (retained self rs) [0..<length rs])"
      and j: "j \<in> set (filter (retained self rs) [0..<length rs])"
      and eq: "signature (rs ! i) = signature (rs ! j)"
    show "i = j"
    proof (rule ccontr)
      assume "i \<noteq> j"
      then consider "i < j" | "j < i" by linarith
      then show False
      proof cases
        case 1
        with i j eq show False by (auto simp: retained_def)
      next
        case 2
        with i j eq show False by (auto simp: retained_def)
      qed
    qed
  qed
  then show ?thesis
    by (simp add: distinct_map comp_def)
qed

text \<open>
  Claim C3, as the code has it. When the validator raises on no entry, \<open>filter_repos\<close>
  ends normally and the list it leaves in \<open>valid_repos\<close> consists of the entries of
  the input, in input order, that pass the validator and are the first among the
  passing entries to have their signature \<open>(full_name, size)\<close>; it is a sub-sequence
  of the input, each of its entries passes the validator, and no two of them share a
  signature.
\<close>

theorem filter_repos_first_by_signature:
  assumes "\<forall>r \<in> set rs. \<not> raises self r"
  shows "\<exists>out. fst (filter_repos self rs) = Inr (None, self\<lparr>valid_repos := Some out\<rparr>)
     \<and> out = map (nth rs) (filter (retained self rs) [0..<length rs])
     \<and> subseq out rs
     \<and> (\<forall>r \<in> set out. passes self r)
     \<and> distinct (map signature out)"
proof -
  let ?out = "map (nth rs) (filter (retained self rs) [0..<length rs])"
  have loop: "fst (filter_loop self rs [] {}) = Inr ?out"
    using filter_loop_positions [OF assms, of "{}" "[]" "[]"] by simp
  then have 1: "fst (filter_repos self rs) = Inr (None, self\<lparr>valid_repos := Some ?out\<rparr>)"
    by (cases "filter_loop self rs [] {}") (simp add: filter_repos_def)
  have 2: "subseq ?out rs"
    using filter_loop_subseq [OF loop] by simp
  have 3: "\<forall>r \<in> set ?out. passes self r"
    by (auto simp: retained_def)
  from 1 2 3 retained_distinct [of rs self] show ?thesis by blast
qed

theorem filter_repos_first_by_signature_witness:
  "fst (filter_repos lenient_collector candidate_repos) =
     Inr (None, lenient_collector\<lparr>valid_repos :=
            Some [example_repo ''parser'' None False 7 active_commits,
                  example_repo ''lexer'' None False 9 active_commits]\<rparr>)"
proof -
  have h: "\<forall>r \<in> set candidate_repos. \<not> raises lenient_collector r"
    by code_simp
  have e: "map (nth candidate_repos)
             (filter (retained lenient_collector candidate_repos) [0..<length candidate_repos]) =
           [example_repo ''parser'' None False 7 active_commits,
            example_repo ''lexer'' None False 9 active_commits]"
    by code_simp
  from filter_repos_first_by_signature [OF h] e show ?thesis by simp
qed

text \<open>
  Claim C3 as worded fails. Of two entries with the same signature, the first of which
  has an exclusion keyword in its description, the second is the one retained: only
  the signatures of accepted repositories are remembered. The call itself returns
  \<open>None\<close>; the list is in \<open>valid_repos\<close>.
\<close>

theorem filter_keeps_later_duplicate:
  "duplicate_repos =
     [example_repo ''parser'' (Some ''Parser tutorial'') False 7 active_commits,
      example_repo ''parser'' (Some ''Parser library'') False 7 active_commits]
   \<and> signature (example_repo ''parser'' (Some ''Parser tutorial'') False 7 active_commits) =
       signature (example_repo ''parser'' (Some ''Parser library'') False 7 active_commits)
   \<and> fst (filter_repos lenient_collector duplicate_repos) =
       Inr (None, lenient_collector\<lparr>valid_repos :=
              Some [example_repo ''parser'' (Some ''Parser library'') False 7 active_commits]\<rparr>)"
  by code_simp

section \<open>Properties of the pull request collector\<close>

lemma append_rows_data:
  "append_rows fn prs data =
     (fst (append_rows fn prs []), data @ snd (append_rows fn prs []))"
proof (induction prs arbitrary: data)
  case Nil
  show ?case by simp
next
  case (Cons pr prs)
  show ?case
  proof (cases "is_merged pr")
    case (Inl e)
    then show ?thesis by simp
  next
    case (Inr m)
    have "append_rows fn (pr # prs) data = append_rows fn prs (data @ [make_row fn pr m])"
      using Inr by simp
    also have "\<dots> = (fst (append_rows fn prs []),
                     (data @ [make_row fn pr m]) @ snd (append_rows fn prs []))"
      by (rule Cons.IH)
    also have "\<dots> = (fst (append_rows fn (pr # prs) []),
                     data @ snd (append_rows fn (pr # prs) []))"
      using Inr Cons.IH [of "[make_row fn pr m]"] by simp
    finally show ?thesis .
  qed
qed

lemma append_rows_takeWhile:
  "snd (append_rows fn prs []) =
     map (\<lambda>pr. make_row fn pr (projr (is_merged pr)))
       (takeWhile (\<lambda>pr. \<not> isl (is_merged pr)) prs)"
proof (induction prs)
  case Nil
  show ?case by simp
next
  case (Cons pr prs)
  show ?case
  proof (cases "is_merged pr")
    case (Inl e)
    then show ?thesis by simp
  next
    case (Inr m)
    then show ?thesis
      using Cons.IH append_rows_data [of fn prs "[make_row fn pr m]"] by simp
  qed
qed

lemma append_rows_no_error:
  "fst (append_rows fn prs []) = None \<longleftrightarrow> (\<forall>pr \<in> set prs. \<not> isl (is_merged pr))"
proof (induction prs)
  case Nil
  show ?case by simp
next
  case (Cons pr prs)
  show ?case
  proof (cases "is_merged pr")
    case (Inl e)
    then show ?thesis by simp
  next
    case (Inr m)
    then show ?thesis
      using Cons.IH append_rows_data [of fn prs "[make_row fn pr m]"] by simp
  qed
qed

lemma collect_repo_pulls_data:
  "collect_repo_pulls repo data =
     (data @ fst (collect_repo_pulls repo []), snd (collect_repo_pulls repo []))"
proof (cases "get_pulls repo")
  case (Inl e)
  then show ?thesis by (simp add: collect_repo_pulls_def)
next
  case (Inr l)
  obtain err rows where ar: "append_rows (full_name repo) (pulls l) [] = (err, rows)"
    by (cases "append_rows (full_name repo) (pulls l) []")
  then have "append_rows (full_name repo) (pulls l) data = (err, data @ rows)"
    using append_rows_data [of "full_name repo" "pulls l" data] by simp
  with Inr ar show ?thesis
    by (simp add: collect_repo_pulls_def split: option.splits)
qed

lemma collect_loop_concat:
  "collect_loop rs data =
     (data @ concat (map (\<lambda>r. fst (collect_repo_pulls r [])) rs),
      concat (map (\<lambda>r. snd (collect_repo_pulls r [])) rs))"
proof (induction rs arbitrary: data)
  case Nil
  show ?case by simp
next
  case (Cons r rs)
  show ?case
    using Cons.IH [of "data @ fst (collect_repo_pulls r [])"]
      collect_repo_pulls_data [of r data]
    by simp
qed

lemma collect_repo_pulls_rows:
  "get_pulls repo = Inr l \<Longrightarrow>
   fst (collect_repo_pulls repo []) =
     map (\<lambda>pr. make_row (full_name repo) pr (projr (is_merged pr)))
       (takeWhile (\<lambda>pr. \<not> isl (is_merged pr)) (pulls l))"
  using append_rows_takeWhile [of "full_name repo" "pulls l"]
  by (cases "append_rows (full_name repo) (pulls l) []")
     (simp add: collect_repo_pulls_def split: option.splits)

lemma collect_repo_pulls_complete:
  assumes "get_pulls repo = Inr l" and "\<forall>pr \<in> set (pulls l). \<not> isl (is_merged pr)"
    and "next_page_error l = None"
  shows "collect_repo_pulls repo [] =
     (map (\<lambda>pr. make_row (full_name repo) pr (projr (is_merged pr))) (pulls l),
      [Print_collecting_prs (full_name repo) (totalCount l)])"
proof -
  from assms(2) have tw: "takeWhile (\<lambda>pr. \<not> isl (is_merged pr)) (pulls l) = pulls l"
    by (simp add: takeWhile_eq_all_conv)
  from assms(2) have "fst (append_rows (full_name repo) (pulls l) []) = None"
    by (simp add: append_rows_no_error)
  moreover have "snd (append_rows (full_name repo) (pulls l) []) =
      map (\<lambda>pr. make_row (full_name repo) pr (projr (is_merged pr))) (pulls l)"
    by (simp only: append_rows_takeWhile tw)
  ultimately have "append_rows (full_name repo) (pulls l) [] =
      (None, map (\<lambda>pr. make_row (full_name repo) pr (projr (is_merged pr))) (pulls l))"
    by (simp add: prod_eq_iff)
  with assms(1,3) show ?thesis
    by (simp add: collect_repo_pulls_def)
qed

lemma collect_repo_pulls_failed:
  assumes "get_pulls repo = Inr l"
    and "(\<exists>pr \<in> set (pulls l). isl (is_merged pr)) \<or> next_page_error l \<noteq> None"
  shows "\<exists>e. snd (collect_repo_pulls repo []) =
     [Print_collecting_prs (full_name repo) (totalCount l), Print_failed_prs (full_name repo) e]"
proof (cases "fst (append_rows (full_name repo) (pulls l) [])")
  case (Some e)
  with assms(1) show ?thesis
    by (cases "append_rows (full_name repo) (pulls l) []") (simp add: collect_repo_pulls_def)
next
  case None
  then have "\<forall>pr \<in> set (pulls l). \<not> isl (is_merged pr)"
    by (simp add: append_rows_no_error)
  with assms(2) obtain e where "next_page_error l = Some e" by auto
  with None assms(1) show ?thesis
    by (cases "append_rows (full_name repo) (pulls l) []") (simp add: collect_repo_pulls_def)
qed

text \<open>
  Claim C5, as the code has it. Collecting pull requests over a list of repositories
  always ends normally, and its rows and its printed lines are those of each repository
  taken alone, in input order. A repository whose listing request raises contributes
  no row and one error line. A repository whose listing is obtained contributes the
  rows of its pull requests up to the first one whose merge lookup raises; when no
  lookup raises and no later page fails, these are the rows of all its pull requests,
  and otherwise an error line follows the line that announces the repository.
\<close>

theorem pull_request_failure_isolated:
  "collect_pull_requests self (Some rs) =
     (Inr (concat (map (\<lambda>r. fst (collect_repo_pulls r [])) rs)),
      concat (map (\<lambda>r. snd (collect_repo_pulls r [])) rs))
   \<and> (\<forall>e. get_pulls repo = Inl e \<longrightarrow>
         collect_repo_pulls repo [] = ([], [Print_failed_prs (full_name repo) e]))
   \<and> (\<forall>l. get_pulls repo = Inr l \<longrightarrow>
         fst (collect_repo_pulls repo []) =
           map (\<lambda>pr. make_row (full_name repo) pr (projr (is_merged pr)))
             (takeWhile (\<lambda>pr. \<not> isl (is_merged pr)) (pulls l)))
   \<and> (\<forall>l. get_pulls repo = Inr l \<and> (\<forall>pr \<in> set (pulls l). \<not> isl (is_merged pr))
           \<and> next_page_error l = None \<longrightarrow>
         collect_repo_pulls repo [] =
           (map (\<lambda>pr. make_row (full_name repo) pr (projr (is_merged pr))) (pulls l),
            [Print_collecting_prs (full_name repo) (totalCount l)]))
   \<and> (\<forall>l. get_pulls repo = Inr l
           \<and> ((\<exists>pr \<in> set (pulls l). isl (is_merged pr)) \<or> next_page_error l \<noteq> None) \<longrightarrow>
         (\<exists>e. snd (collect_repo_pulls repo []) =
            [Print_collecting_prs (full_name repo) (totalCount l),
             Print_failed_prs (full_name repo) e]))"
proof -
  have "collect_pull_requests self (Some rs) =
     (Inr (concat (map (\<lambda>r. fst (collect_repo_pulls r [])) rs)),
      concat (map (\<lambda>r. snd (collect_repo_pulls r [])) rs))"
    by (simp add: collect_pull_requests_def collect_loop_concat [of rs "[]"])
  moreover have "collect_repo_pulls repo [] = ([], [Print_failed_prs (full_name repo) e])"
    if "get_pulls repo = Inl e" for e
    using that by (simp add: collect_repo_pulls_def)
  ultimately show ?thesis
    using collect_repo_pulls_rows [of repo] collect_repo_pulls_complete [of repo]
      collect_repo_pulls_failed [of repo]
    by blast
qed

theorem pull_request_failure_isolated_witness:
  "collect_pull_requests default_collector (Some [missing_repo, healthy_repo]) =
     (Inr [make_row ''octo/healthy'' (example_pr 7 ''Bump version'' (Inr False)) False],
      [Print_failed_prs ''octo/missing'' (Exception ''404 not found''),
       Print_collecting_prs ''octo/healthy'' 1])
   \<and> collect_repo_pulls missing_repo [] =
       ([], [Print_failed_prs ''octo/missing'' (Exception ''404 not found'')])
   \<and> fst (collect_repo_pulls flaky_repo []) =
       [make_row ''octo/flaky'' (example_pr 2 ''Add cache'' (Inr True)) True]"
proof -
  have m: "get_pulls missing_repo = Inl (Exception ''404 not found'')"
    and fm: "full_name missing_repo = ''octo/missing''"
    by (simp_all add: missing_repo_def pulls_repo_def)
  from pull_request_failure_isolated [of default_collector "[missing_repo, healthy_repo]" missing_repo] m fm
  have 1: "collect_repo_pulls missing_repo [] =
       ([], [Print_failed_prs ''octo/missing'' (Exception ''404 not found'')])"
    by simp
  have h: "get_pulls healthy_repo = Inr \<lparr> totalCount = 1, pulls = [example_pr 7 ''Bump version'' (Inr False)],
              next_page_error = None \<rparr>"
    and fh: "full_name healthy_repo = ''octo/healthy''"
    by (simp_all add: healthy_repo_def pulls_repo_def)
  from pull_request_failure_isolated [of default_collector "[]" healthy_repo] h fh
  have 2: "collect_repo_pulls healthy_repo [] =
      ([make_row ''octo/healthy'' (example_pr 7 ''Bump version'' (Inr False)) False],
       [Print_collecting_prs ''octo/healthy'' 1])"
    by (simp add: example_pr_def)
  have f: "get_pulls flaky_repo = Inr \<lparr> totalCount = 2,
              pulls = [example_pr 2 ''Add cache'' (Inr True),
                       example_pr 1 ''Fix typo'' (Inl (Exception ''rate limit exceeded''))],
              next_page_error = None \<rparr>"
    and ff: "full_name flaky_repo = ''octo/flaky''"
    by (simp_all add: flaky_repo_def pulls_repo_def)
  from pull_request_failure_isolated [of default_collector "[]" flaky_repo] f ff
  have 3: "fst (collect_repo_pulls flaky_repo []) =
       [make_row ''octo/flaky'' (example_pr 2 ''Add cache'' (Inr True)) True]"
    by (simp add: example_pr_def)
  from pull_request_failure_isolated [of default_collector "[missing_repo, healthy_repo]" missing_repo] 1 2 3
  show ?thesis by simp
qed

text \<open>
  Claim C5 as worded fails: a repository whose second merge lookup raises, and one whose
  second page fails, each keep the row appended before the exception, next to their
  error line.
\<close>

theorem partial_rows_kept:
  "collect_pull_requests default_collector (Some [flaky_repo, truncated_repo, healthy_repo]) =
     (Inr [make_row ''octo/flaky'' (example_pr 2 ''Add cache'' (Inr True)) True,
           make_row ''octo/truncated'' (example_pr 40 ''Update docs'' (Inr True)) True,
           make_row ''octo/healthy'' (example_pr 7 ''Bump version'' (Inr False)) False],
      [Print_collecting_prs ''octo/flaky'' 2,
       Print_failed_prs ''octo/flaky'' (Exception ''rate limit exceeded''),
       Print_collecting_prs ''octo/truncated'' 40,
       Print_failed_prs ''octo/truncated'' (Exception ''502 server error''),
       Print_collecting_prs ''octo/healthy'' 1])"
  by (simp add: collect_pull_requests_def collect_repo_pulls_def flaky_repo_def
        truncated_repo_def healthy_repo_def pulls_repo_def example_pr_def)

section \<open>Properties of the classifiers\<close>

lemma dom_classify_loop:
  "dom (fst (classify_loop g survey ms results)) = dom results \<union> set ms"
  by (induction ms arbitrary: results) (auto simp: split_beta Let_def)

lemma classify_loop_keeps:
  "m \<notin> set ms \<Longrightarrow> fst (classify_loop g survey ms results) m = results m"
  by (induction ms arbitrary: results) (auto simp: split_beta Let_def)

lemma classify_loop_value:
  "m \<in> set ms \<Longrightarrow>
   fst (classify_loop g survey ms results) m = Some (fst (classify_commit_gemini g survey m))"
proof (induction ms arbitrary: results)
  case Nil
  then show ?case by simp
next
  case (Cons a ms)
  show ?case
  proof (cases "m \<in> set ms")
    case True
    with Cons.IH show ?thesis by (simp add: split_beta Let_def)
  next
    case False
    with Cons.prems have "m = a" by simp
    with False show ?thesis by (simp add: split_beta Let_def classify_loop_keeps)
  qed
qed

text \<open>
  Claim C7. When the call to the text-generation service raises, either classifier
  prints the exception and returns \<open>Error\<close>. A batch therefore classifies every one of
  its commit messages, whatever the service does, and gives \<open>Error\<close> to those on which
  the service raises.
\<close>

theorem classifier_error_sentinel:
  "(generate_content (gemini_prompt survey commit_message) = Inl e \<longrightarrow>
      classify_commit_gemini generate_content survey commit_message
        = (''Error'', [Print_classification_error e]))
   \<and> (create model [(''system'', SURVEY_TEXT), (''user'', ''Commit: '' @ commit_message)] = Inl e \<longrightarrow>
      classify_commit_gpt create commit_message model = (''Error'', [Print_error e]))
   \<and> dom (fst (classify_multiple_commits generate_content commits survey)) = set commits
   \<and> (\<forall>m \<in> set commits. generate_content (gemini_prompt survey m) = Inl e \<longrightarrow>
        fst (classify_multiple_commits generate_content commits survey) m = Some ''Error'')"
proof -
  have "fst (classify_multiple_commits generate_content commits survey) m = Some ''Error''"
    if "m \<in> set commits" "generate_content (gemini_prompt survey m) = Inl e" for m
    using that by (simp add: classify_multiple_commits_def classify_loop_value classify_commit_gemini_def)
  then show ?thesis
    by (simp add: classify_commit_gemini_def classify_commit_gpt_def
          classify_multiple_commits_def dom_classify_loop)
qed

theorem classifier_error_sentinel_witness:
  "classify_commit_gemini failing_service ''survey'' ''Fix login''
     = (''Error'', [Print_classification_error (Exception ''503 service unavailable'')])
   \<and> classify_commit_gpt failing_chat ''Fix login'' ''gpt-4o''
     = (''Error'', [Print_error (Exception ''503 service unavailable'')])
   \<and> fst (classify_multiple_commits failing_service [''Fix login'', ''Add tests''] ''survey'') ''Add tests''
     = Some ''Error''"
  using classifier_error_sentinel [of failing_service "''survey''" "''Fix login''"
          "Exception ''503 service unavailable''" failing_chat "''gpt-4o''" "[''Fix login'', ''Add tests'']"]
  by (simp add: failing_service_def failing_chat_def)

lemma rstrip_Cons:
  "rev (dropWhile is_space (rev (x # xs))) =
     (if \<forall>c \<in> set (x # xs). is_space c then []
      else x # rev (dropWhile is_space (rev xs)))"
  by (auto simp: dropWhile_append dropWhile_eq_Nil_conv)

lemma takeWhile_rstrip:
  "takeWhile (\<lambda>c. \<not> is_space c) (rev (dropWhile is_space (rev t))) =
   takeWhile (\<lambda>c. \<not> is_space c) t"
proof (induction t)
  case Nil
  show ?case by simp
next
  case (Cons x xs)
  show ?case
  proof (cases "\<forall>c \<in> set (x # xs). is_space c")
    case True
    then show ?thesis by (simp only: rstrip_Cons if_True) simp
  next
    case False
    then show ?thesis using Cons.IH by (simp only: rstrip_Cons if_False) simp
  qed
qed

lemma strip_starts_with_token:
  "dropWhile is_space (strip s) = strip s"
proof (cases "dropWhile is_space s")
  case Nil
  show ?thesis unfolding strip_def Nil by simp
next
  case (Cons x xs)
  then have "\<not> is_space x"
    using hd_dropWhile [of is_space s] by simp
  then show ?thesis
    unfolding strip_def Cons by (simp only: rstrip_Cons) simp
qed

lemma strip_Nil_iff: "strip s = [] \<longleftrightarrow> (\<forall>c \<in> set s. is_space c)"
proof (cases "dropWhile is_space s")
  case Nil
  then have "\<forall>c \<in> set s. is_space c" by (simp add: dropWhile_eq_Nil_conv)
  moreover have "strip s = []" unfolding strip_def Nil by simp
  ultimately show ?thesis by simp
next
  case (Cons x xs)
  then have x: "\<not> is_space x"
    using hd_dropWhile [of is_space s] by simp
  from Cons have "\<not> (\<forall>c \<in> set s. is_space c)"
    by (metis dropWhile_eq_Nil_conv list.distinct(1))
  moreover from x have "strip s \<noteq> []"
    unfolding strip_def Cons by (simp only: rstrip_Cons) simp
  ultimately show ?thesis by simp
qed

lemma first_token_strip: "spec_first_token (strip s) = spec_first_token s"
  unfolding spec_first_token_def strip_starts_with_token
  by (simp add: strip_def takeWhile_rstrip)

lemma str_split_first:
  "str_split s =
     (if \<forall>c \<in> set s. is_space c then []
      else spec_first_token s
           # str_split (dropWhile (\<lambda>c. \<not> is_space c) (dropWhile is_space s)))"
  by (subst str_split.simps) (simp add: spec_first_token_def dropWhile_eq_Nil_conv Let_def)

lemma split_strip_first:
  "\<exists>c \<in> set reply. \<not> is_space c \<Longrightarrow>
   \<exists>rest. str_split (strip reply) = spec_first_token reply # rest"
proof -
  assume "\<exists>c \<in> set reply. \<not> is_space c"
  then have "strip reply \<noteq> []" by (simp add: strip_Nil_iff)
  then have "\<not> (\<forall>c \<in> set (strip reply). is_space c)"
    using strip_starts_with_token [of reply]
    by (metis dropWhile_eq_Nil_conv)
  then show ?thesis
    by (subst str_split_first) (simp add: first_token_strip)
qed

text \<open>The two kinds of response text without a token: the empty text is answered by
  \<open>No response\<close>; a text of whitespace only makes \<open>split()[0]\<close> raise, which the
  handler turns into \<open>Error\<close>.\<close>

lemma gemini_blank_reply:
  assumes "generate_content (gemini_prompt survey commit_message) = Inr reply"
    and "\<forall>c \<in> set reply. is_space c"
  shows "classify_commit_gemini generate_content survey commit_message =
     (if reply = [] then (''No response'', [])
      else (''Error'', [Print_classification_error (Exception ''list index out of range'')]))"
proof -
  from assms(2) have "strip reply = []" by (simp add: strip_Nil_iff)
  then have "str_split (strip reply) = []" by (simp add: str_split_first)
  with assms(1) show ?thesis by (simp add: classify_commit_gemini_def)
qed

text \<open>
  Claim C2, as the code has it. For a response text with at least one character that
  is not whitespace, the Gemini classifier returns the first whitespace-delimited token
  when it is one of the five category labels and \<open>Unknown\<close> otherwise. The GPT
  classifier neither takes a token nor checks it: it returns the whole response content,
  stripped of the whitespace around it.
\<close>

theorem gemini_first_token_gpt_whole_text:
  "(generate_content (gemini_prompt survey commit_message) = Inr text
      \<and> (\<exists>c \<in> set text. \<not> is_space c) \<longrightarrow>
    classify_commit_gemini generate_content survey commit_message =
      (if spec_first_token text \<in> set categories then spec_first_token text else ''Unknown'', []))
   \<and> (create model [(''system'', SURVEY_TEXT), (''user'', ''Commit: '' @ commit_message)]
         = Inr content \<longrightarrow>
       classify_commit_gpt create commit_message model = (strip content, []))"
proof -
  have "classify_commit_gemini generate_content survey commit_message =
      (if spec_first_token text \<in> set categories then spec_first_token text else ''Unknown'', [])"
    if g: "generate_content (gemini_prompt survey commit_message) = Inr text"
      and ns: "\<exists>c \<in> set text. \<not> is_space c"
  proof -
    from ns have "text \<noteq> []" by auto
    moreover from split_strip_first [OF ns] obtain rest
      where "str_split (strip text) = spec_first_token text # rest" ..
    ultimately show ?thesis
      using g by (simp add: classify_commit_gemini_def)
  qed
  then show ?thesis
    by (simp add: classify_commit_gpt_def)
qed

theorem gemini_first_token_gpt_whole_text_witness:
  "classify_commit_gemini banana_service ''survey'' ''Fix login'' = (''Unknown'', [])
   \<and> classify_commit_gemini corrective_service ''survey'' ''Fix login'' = (''Corrective'', [])"
proof -
  have b: "spec_first_token ''Banana extra text'' = ''Banana''"
    and c: "spec_first_token ('' Corrective'' @ [CHR 0x0A]) = ''Corrective''"
    and bs: "\<exists>c \<in> set ''Banana extra text''. \<not> is_space c"
    and cs: "\<exists>c \<in> set ('' Corrective'' @ [CHR 0x0A]). \<not> is_space c"
    by code_simp+
  have "classify_commit_gemini banana_service ''survey'' ''Fix login'' = (''Unknown'', [])"
    using gemini_first_token_gpt_whole_text [of banana_service "''survey''" "''Fix login''"
            "''Banana extra text''"] bs
    by (simp add: banana_service_def b categories_def)
  moreover
  have "classify_commit_gemini corrective_service ''survey'' ''Fix login'' = (''Corrective'', [])"
    using gemini_first_token_gpt_whole_text [of corrective_service "''survey''" "''Fix login''"
            "'' Corrective'' @ [CHR 0x0A]"] cs
    by (simp add: corrective_service_def c [simplified] categories_def)
  ultimately show ?thesis by simp
qed

text \<open>
  Claim C2 as worded fails for the GPT classifier: on the response
  \<open>Banana extra text\<close> it returns that text, not \<open>Unknown\<close>.
\<close>

theorem gpt_returns_whole_text:
  "classify_commit_gpt banana_chat ''Fix login'' ''gpt-4o'' = (''Banana extra text'', [])
   \<and> fst (classify_commit_gpt banana_chat ''Fix login'' ''gpt-4o'') \<noteq> ''Unknown''"
proof -
  have "strip ''Banana extra text'' = ''Banana extra text''" by code_simp
  then show ?thesis by (simp add: classify_commit_gpt_def banana_chat_def)
qed

end
